theory Spec2Isabelle
  imports Complex_Main
begin

section \<open>Data model\<close>

text \<open>
  The analysis pipeline of \<^verbatim>\<open>climate_analysis.py\<close> works on pandas data frames. A frame
  is modelled as the list of its rows, a row as a record with one field per column.
  Float columns hold exact reals; a float column that can hold NaN is a \<open>real option\<close>
  with \<open>None\<close> for NaN. A categorical column (the result of \<^verbatim>\<open>pd.cut\<close>) is an option of
  the datatype of its categories, \<open>None\<close> being the missing value.
\<close>

datatype season = Winter | Spring | Summer | Fall

datatype region = Antarctica | Southern | TropicalS | TropicalN | Northern | Arctic

datatype error = ValueError | FileNotFoundError | KeyError string

type_synonym date = "int \<times> int \<times> int"

text \<open>The columns of \<^verbatim>\<open>station_metadata.csv\<close>.\<close>

record station_metadata =
  station_id :: string
  latitude :: real
  longitude :: real
  elevation :: real
  name :: string
  country :: string

text \<open>The columns of \<^verbatim>\<open>temperature_data.csv\<close>; \<open>temperature\<close> is in tenths of a degree.\<close>

record temperature_record =
  station_id :: string
  year :: int
  month :: int
  temperature :: int

text \<open>The three columns that \<^verbatim>\<open>preprocess_data\<close> adds to \<^verbatim>\<open>temp_df\<close>.\<close>

record preprocessed = temperature_record +
  temperature_c :: real
  date :: date
  season :: "season option"

text \<open>
  The merged frame \<^verbatim>\<open>data\<close>: the metadata columns, the \<open>region\<close> column, and the
  \<open>decade\<close> column, which does not exist when \<^verbatim>\<open>preprocess_data\<close> returns (\<open>None\<close>) and
  is added later by assignment (\<open>Some\<close> on every row).
\<close>

record enriched = preprocessed +
  latitude :: real
  longitude :: real
  elevation :: real
  name :: string
  country :: string
  region :: "region option"
  decade :: "int option"

section \<open>Preprocessing\<close>

text \<open>
  \<^verbatim>\<open>pd.cut(x, bins, labels, include_lowest)\<close> with the default \<^verbatim>\<open>right=True\<close>: the value
  gets the label of the interval \<open>(lo, hi]\<close> that holds it; the first interval also holds
  its left edge when \<^verbatim>\<open>include_lowest\<close> is set; a value in no interval is missing.
\<close>

fun cut :: "'a::linorder list \<Rightarrow> 'b list \<Rightarrow> bool \<Rightarrow> 'a \<Rightarrow> 'b option" where
  "cut (lo # hi # bins) (l # labels) include_lowest x =
     (if (lo < x \<or> (include_lowest \<and> x = lo)) \<and> x \<le> hi then Some l
      else cut (hi # bins) labels False x)"
| "cut _ _ _ _ = None"

text \<open>
  Lines 166-173: the cut of the month column, then the assignment of \<^verbatim>\<open>'Winter'\<close> to the
  rows whose month is 12.
\<close>

definition season_of :: "int \<Rightarrow> season option" where
  "season_of m =
     (let s = cut [0, 3, 6, 9, 13] [Winter, Spring, Summer, Fall] True m
      in if m = 12 then Some Winter else s)"

text \<open>Lines 179-183: the cut of the latitude column (no \<^verbatim>\<open>include_lowest\<close>).\<close>

definition region_of :: "real \<Rightarrow> region option" where
  "region_of lat =
     cut [- 90, - 60, - 30, 0, 30, 60, 90]
       [Antarctica, Southern, TropicalS, TropicalN, Northern, Arctic] False lat"

text \<open>
  Line 162: \<^verbatim>\<open>pd.to_datetime\<close> assembles a date from year, month and day 1. It raises
  \<^verbatim>\<open>ValueError\<close> when the month is not a month of the calendar or the date is outside
  the range of a nanosecond timestamp (1677-09-21 to 2262-04-11).
\<close>

definition valid_date :: "int \<Rightarrow> int \<Rightarrow> bool" where
  "valid_date y m \<longleftrightarrow>
     1 \<le> m \<and> m \<le> 12 \<and> (1677 < y \<or> (y = 1677 \<and> 10 \<le> m)) \<and> (y < 2262 \<or> (y = 2262 \<and> m \<le> 4))"

definition add_columns :: "temperature_record \<Rightarrow> preprocessed" where
  "add_columns t =
     temperature_record.extend t
       \<lparr>temperature_c = real_of_int (temperature t) / 10,
        date = (year t, month t, 1),
        season = season_of (month t)\<rparr>"

text \<open>
  Line 176: \<^verbatim>\<open>pd.merge(temp_df, station_metadata, on='station_id')\<close>, an inner join in the
  order of the left frame; then the \<open>region\<close> column is cut from the latitude.
\<close>

definition join_metadata :: "preprocessed \<Rightarrow> station_metadata \<Rightarrow> enriched" where
  "join_metadata p m =
     preprocessed.extend p
       \<lparr>latitude = station_metadata.latitude m,
        longitude = station_metadata.longitude m,
        elevation = station_metadata.elevation m,
        name = station_metadata.name m,
        country = station_metadata.country m,
        region = region_of (station_metadata.latitude m),
        decade = None\<rparr>"

definition merge_metadata :: "preprocessed list \<Rightarrow> station_metadata list \<Rightarrow> enriched list" where
  "merge_metadata temp_df metadata =
     concat (map (\<lambda>p. map (join_metadata p)
       (filter (\<lambda>m. station_metadata.station_id m = station_id p) metadata)) temp_df)"

text \<open>
  \<^verbatim>\<open>preprocess_data\<close> assigns its three columns to \<^verbatim>\<open>temp_df\<close> itself, so the caller's
  frame is changed: the result is the pair of the frame \<^verbatim>\<open>temp_df\<close> as the call leaves it
  and of the returned frame \<^verbatim>\<open>data\<close>. The metadata frame is only read. When a date
  cannot be assembled the call raises after \<open>temperature_c\<close> has been assigned; the run
  ends there, and the model returns the error alone.
\<close>

definition preprocess_data ::
  "temperature_record list \<Rightarrow> station_metadata list \<Rightarrow> error + (preprocessed list \<times> enriched list)"
where
  "preprocess_data temp_df metadata =
     (if \<exists>t \<in> set temp_df. \<not> valid_date (year t) (month t) then Inl ValueError
      else let temp_df' = map add_columns temp_df
           in Inr (temp_df', merge_metadata temp_df' metadata))"

section \<open>Aggregation\<close>

text \<open>
  \<^verbatim>\<open>Series.mean()\<close> is the arithmetic mean of the values that are not missing, and is
  missing itself when there is none. \<open>mean\<close> takes a column without missing values,
  \<open>nanmean\<close> a column that can hold them.
\<close>

definition mean :: "real list \<Rightarrow> real option" where
  "mean xs = (if xs = [] then None else Some (sum_list xs / real (length xs)))"

definition nanmean :: "real option list \<Rightarrow> real option" where
  "nanmean xs = mean (concat (map (\<lambda>x. case x of None \<Rightarrow> [] | Some v \<Rightarrow> [v]) xs))"

text \<open>
  The \<^verbatim>\<open>'std'\<close> aggregate is the sample standard deviation (one degree of freedom
  removed), missing for fewer than two values.
\<close>

definition std :: "real list \<Rightarrow> real option" where
  "std xs =
     (if length xs < 2 then None
      else let m = sum_list xs / real (length xs)
           in Some (sqrt (sum_list (map (\<lambda>x. (x - m)\<^sup>2) xs) / real (length xs - 1))))"

text \<open>Arithmetic and comparison of float columns: a missing operand gives a missing
  result, and a comparison with a missing operand is false.\<close>

fun nan_sub :: "real option \<Rightarrow> real option \<Rightarrow> real option" where
  "nan_sub (Some a) (Some b) = Some (a - b)"
| "nan_sub _ _ = None"

fun nan_add :: "real option \<Rightarrow> real option \<Rightarrow> real option" where
  "nan_add (Some a) (Some b) = Some (a + b)"
| "nan_add _ _ = None"

fun nan_gt :: "real option \<Rightarrow> real option \<Rightarrow> bool" where
  "nan_gt (Some a) (Some b) = (a > b)"
| "nan_gt _ _ = False"

fun nan_lt :: "real option \<Rightarrow> real option \<Rightarrow> bool" where
  "nan_lt (Some a) (Some b) = (a < b)"
| "nan_lt _ _ = False"

text \<open>The categories of the two categorical columns, in the order of their labels.\<close>

definition seasons :: "season list" where
  "seasons = [Winter, Spring, Summer, Fall]"

definition regions :: "region list" where
  "regions = [Antarctica, Southern, TropicalS, TropicalN, Northern, Arctic]"

text \<open>
  The keys of \<^verbatim>\<open>groupby([k, c])\<close> for an integer column \<open>k\<close> and a categorical column
  \<open>c\<close>, sorted. Rows with a missing key belong to no group. The argument \<open>observed\<close> is
  the default of pandas for the \<^verbatim>\<open>observed\<close> option, which the source leaves unset: with
  \<open>False\<close> (pandas before 3.0) the result has one row for every value of \<open>k\<close> and every
  category of \<open>c\<close>, with \<open>True\<close> (pandas from 3.0) only for the pairs that occur.
\<close>

definition key_values :: "('r \<Rightarrow> int option) \<Rightarrow> 'r list \<Rightarrow> int list" where
  "key_values k df = sort (remdups (concat (map (\<lambda>d. case k d of None \<Rightarrow> [] | Some v \<Rightarrow> [v]) df)))"

definition group_keys ::
  "bool \<Rightarrow> ('r \<Rightarrow> int option) \<Rightarrow> ('r \<Rightarrow> 'c option) \<Rightarrow> 'c list \<Rightarrow> 'r list \<Rightarrow> (int \<times> 'c) list"
where
  "group_keys observed k c cats df =
     (let ks = List.product (key_values k df) cats
      in if observed then filter (\<lambda>(y, r). \<exists>d \<in> set df. k d = Some y \<and> c d = Some r) ks else ks)"

definition group_rows :: "('r \<Rightarrow> int option) \<Rightarrow> ('r \<Rightarrow> 'c option) \<Rightarrow> int \<Rightarrow> 'c \<Rightarrow> 'r list \<Rightarrow> 'r list" where
  "group_rows k c y r df = filter (\<lambda>d. k d = Some y \<and> c d = Some r) df"

text \<open>\<^verbatim>\<open>groupby([k, c])['temperature_c'].mean().reset_index()\<close>: columns \<open>k\<close>, \<open>c\<close>,
  \<open>temperature_c\<close>.\<close>

definition grouped_mean ::
  "bool \<Rightarrow> (enriched \<Rightarrow> int option) \<Rightarrow> (enriched \<Rightarrow> 'c option) \<Rightarrow> 'c list \<Rightarrow> enriched list
     \<Rightarrow> (int \<times> 'c \<times> real option) list"
where
  "grouped_mean observed k c cats df =
     map (\<lambda>(y, r). (y, r, mean (map temperature_c (group_rows k c y r df))))
       (group_keys observed k c cats df)"

section \<open>Trend analysis\<close>

text \<open>
  Lines 195-196, the table \<^verbatim>\<open>annual_global_avg\<close> with the columns \<open>year\<close>,
  \<open>temperature_c\<close> and \<open>temp_anomaly\<close>: the mean of every year that occurs, in the order of
  the years, minus the mean of that column.
\<close>

definition annual_global_avg :: "enriched list \<Rightarrow> (int \<times> real option \<times> real option) list" where
  "annual_global_avg data =
     (let avg = map (\<lambda>y. (y, mean (map temperature_c (filter (\<lambda>d. year d = y) data))))
                  (sort (remdups (map year data)));
          m = nanmean (map snd avg)
      in map (\<lambda>(y, t). (y, t, nan_sub t m)) avg)"

text \<open>
  Lines 199-207, the table \<^verbatim>\<open>annual_regional_avg\<close> with the columns \<open>year\<close>, \<open>region\<close>,
  \<open>temperature_c\<close>, \<open>baseline_temp\<close> and \<open>temp_anomaly\<close>: the means by year and region; the
  rows of 1961 to 1990 grouped by region for the baselines; the inner join of the two on
  the region, in the order of the left table; the difference.
\<close>

definition regional_avg :: "bool \<Rightarrow> enriched list \<Rightarrow> (int \<times> region \<times> real option) list" where
  "regional_avg observed data = grouped_mean observed (\<lambda>d. Some (year d)) region regions data"

definition baseline_period :: "(int \<times> region \<times> real option) list \<Rightarrow> (int \<times> region \<times> real option) list" where
  "baseline_period avg = filter (\<lambda>(y, r, t). 1961 \<le> y \<and> y \<le> 1990) avg"

definition baseline_temp :: "(int \<times> region \<times> real option) list \<Rightarrow> region \<Rightarrow> real option" where
  "baseline_temp base r = nanmean (map (\<lambda>(y, r', t). t) (filter (\<lambda>(y, r', t). r' = r) base))"

definition regional_baselines ::
  "bool \<Rightarrow> (int \<times> region \<times> real option) list \<Rightarrow> (region \<times> real option) list"
where
  "regional_baselines observed avg =
     (let base = baseline_period avg;
          ks = (if observed then filter (\<lambda>r. \<exists>(y, r', t) \<in> set base. r' = r) regions else regions)
      in map (\<lambda>r. (r, baseline_temp base r)) ks)"

definition annual_regional_avg ::
  "bool \<Rightarrow> enriched list \<Rightarrow> (int \<times> region \<times> real option \<times> real option \<times> real option) list"
where
  "annual_regional_avg observed data =
     (let avg = regional_avg observed data;
          baselines = regional_baselines observed avg
      in concat (map (\<lambda>(y, r, t).
           map (\<lambda>(r', b). (y, r, t, b, nan_sub t b)) (filter (\<lambda>(r', b). r' = r) baselines)) avg))"

text \<open>Line 213, \<^verbatim>\<open>data['decade'] = (data['year'] // 10) * 10\<close>: an assignment to a column
  of the frame that the caller passed.\<close>

definition set_decade :: "enriched \<Rightarrow> enriched" where
  "set_decade d = d\<lparr>decade := Some ((year d div 10) * 10)\<rparr>"

record trend_results =
  annual_global :: "(int \<times> real option \<times> real option) list"
  annual_regional :: "(int \<times> region \<times> real option \<times> real option \<times> real option) list"
  seasonal_avg :: "(int \<times> season \<times> real option) list"
  decadal_avg :: "(int \<times> region \<times> real option) list"

text \<open>
  \<^verbatim>\<open>analyze_temperature_trends\<close>: the first component of the result is the caller's
  frame \<^verbatim>\<open>data\<close> as the call leaves it, the second the returned tables.
\<close>

definition analyze_temperature_trends :: "bool \<Rightarrow> enriched list \<Rightarrow> enriched list \<times> trend_results" where
  "analyze_temperature_trends observed data =
     (let global = annual_global_avg data;
          regional = annual_regional_avg observed data;
          seasonal = grouped_mean observed (\<lambda>d. Some (year d)) season seasons data;
          data' = map set_decade data;
          decadal = grouped_mean observed decade region regions data'
      in (data', \<lparr>annual_global = global, annual_regional = regional,
                  seasonal_avg = seasonal, decadal_avg = decadal\<rparr>))"

section \<open>Extreme temperatures\<close>

text \<open>The frame that \<^verbatim>\<open>analyze_extreme_temperatures\<close> builds by merging the station
  statistics onto the records: the columns \<^verbatim>\<open>mean\<close>, \<^verbatim>\<open>std\<close> and the two flags.\<close>

record flagged = enriched +
  station_mean :: "real option"
  station_std :: "real option"
  extreme_hot :: bool
  extreme_cold :: bool

text \<open>
  Line 237: mean and standard deviation of every station. pandas sorts the rows by the
  station identifier; the table is only the right side of the merge of line 238, whose
  result is in the order of the left side, so the model leaves them in the order of
  first occurrence.
\<close>

definition station_temps :: "enriched list \<Rightarrow> string \<Rightarrow> real list" where
  "station_temps data s = map temperature_c (filter (\<lambda>d. station_id d = s) data)"

definition station_stats :: "enriched list \<Rightarrow> (string \<times> real option \<times> real option) list" where
  "station_stats data =
     map (\<lambda>s. (s, mean (station_temps data s), std (station_temps data s)))
       (remdups (map station_id data))"

text \<open>Lines 238-244: the merge, the two comparisons, and the decade, assigned to the
  merged frame (a new frame, bound to the local name \<^verbatim>\<open>data\<close>).\<close>

definition flag_row :: "enriched \<Rightarrow> string \<times> real option \<times> real option \<Rightarrow> flagged" where
  "flag_row d st =
     (case st of (s, m, sd) \<Rightarrow>
        enriched.extend (set_decade d)
          \<lparr>station_mean = m, station_std = sd,
           extreme_hot = nan_gt (Some (temperature_c d)) (nan_add m (map_option ((*) 2) sd)),
           extreme_cold = nan_lt (Some (temperature_c d)) (nan_sub m (map_option ((*) 2) sd))\<rparr>)"

definition flag_extremes :: "enriched list \<Rightarrow> flagged list" where
  "flag_extremes data =
     concat (map (\<lambda>d. map (flag_row d) (filter (\<lambda>(s, m, sd). s = station_id d) (station_stats data))) data)"

text \<open>Line 245: the sums of the two flags by decade and region; columns \<open>decade\<close>,
  \<open>region\<close>, \<open>extreme_hot\<close>, \<open>extreme_cold\<close>.\<close>

definition extreme_counts :: "bool \<Rightarrow> flagged list \<Rightarrow> (int \<times> region \<times> int \<times> int) list" where
  "extreme_counts observed fl =
     map (\<lambda>(y, r). (y, r, int (length (filter extreme_hot (group_rows decade region y r fl))),
                          int (length (filter extreme_cold (group_rows decade region y r fl)))))
       (group_keys observed decade region regions fl)"

definition analyze_extreme_temperatures :: "bool \<Rightarrow> enriched list \<Rightarrow> (int \<times> region \<times> int \<times> int) list" where
  "analyze_extreme_temperatures observed data = extreme_counts observed (flag_extremes data)"

section \<open>Loading the data\<close>

text \<open>
  The directory \<^verbatim>\<open>data\<close>: the two tables that \<^verbatim>\<open>load_data\<close> reads, each absent or
  holding its rows, and the archive that \<^verbatim>\<open>download_data\<close> saves. Faults of the file
  system itself are outside the model.
\<close>

record data_dir =
  temperature_data_csv :: "temperature_record list option"
  station_metadata_csv :: "station_metadata list option"
  ghcnm_data_tar_gz :: "string option"

text \<open>What \<^verbatim>\<open>requests.get\<close> does: it raises (no connection, timeout) or returns a
  response with a status code and a content.\<close>

datatype response = Unreachable | Response int string

text \<open>
  \<^verbatim>\<open>create_sample_data\<close> draws its values from the random generator of numpy with a
  fixed seed. The two frames it builds are the argument \<open>sample\<close>; the function writes
  both to the directory and returns them.
\<close>

definition create_sample_data ::
  "temperature_record list \<times> station_metadata list \<Rightarrow> data_dir
     \<Rightarrow> data_dir \<times> temperature_record list \<times> station_metadata list"
where
  "create_sample_data sample dir =
     (dir\<lparr>temperature_data_csv := Some (fst sample), station_metadata_csv := Some (snd sample)\<rparr>,
      sample)"

text \<open>
  \<^verbatim>\<open>download_data\<close>: a response with status 200 is saved as the archive; any other
  status raises inside the inner \<^verbatim>\<open>try\<close>, and that exception, like the one of an
  unreachable server, is caught by the inner handler, which creates the sample data. The
  outer handler re-raises only what \<^verbatim>\<open>create_sample_data\<close> raises, which is nothing
  here.
\<close>

definition download_data ::
  "temperature_record list \<times> station_metadata list \<Rightarrow> response \<Rightarrow> data_dir \<Rightarrow> data_dir"
where
  "download_data sample resp dir =
     (case resp of
        Response status_code content \<Rightarrow>
          if status_code = 200 then dir\<lparr>ghcnm_data_tar_gz := Some content\<rparr>
          else fst (create_sample_data sample dir)
      | Unreachable \<Rightarrow> fst (create_sample_data sample dir))"

definition load_data ::
  "temperature_record list \<times> station_metadata list \<Rightarrow> data_dir
     \<Rightarrow> data_dir \<times> temperature_record list \<times> station_metadata list"
where
  "load_data sample dir =
     (case (temperature_data_csv dir, station_metadata_csv dir) of
        (Some temp_df, Some metadata) \<Rightarrow> (dir, temp_df, metadata)
      | _ \<Rightarrow> create_sample_data sample dir)"

section \<open>The whole run\<close>

text \<open>
  \<^verbatim>\<open>run_analysis\<close>: what the run leaves behind. \<open>temp_df\<close> and \<open>data\<close> are the two frames
  as they are when the run ends; \<open>data\<close> is also what is written to
  \<^verbatim>\<open>processed_data.csv\<close>.
\<close>

record run_result =
  dir_after :: data_dir
  temp_df_after :: "preprocessed list"
  metadata_after :: "station_metadata list"
  data_after :: "enriched list"
  trends :: trend_results
  extremes :: "(int \<times> region \<times> int \<times> int) list"

definition run_analysis ::
  "bool \<Rightarrow> temperature_record list \<times> station_metadata list \<Rightarrow> response \<Rightarrow> data_dir
     \<Rightarrow> error + run_result"
where
  "run_analysis observed sample resp dir =
     (let dir1 = download_data sample resp dir;
          (dir2, temp_df, metadata) = load_data sample dir1
      in case preprocess_data temp_df metadata of
           Inl e \<Rightarrow> Inl e
         | Inr (temp_df', data) \<Rightarrow>
             let (data', trend_results) = analyze_temperature_trends observed data;
                 extreme_results = analyze_extreme_temperatures observed data'
             in Inr \<lparr>dir_after = dir2, temp_df_after = temp_df', metadata_after = metadata,
                     data_after = data', trends = trend_results, extremes = extreme_results\<rparr>)"

section \<open>Reading the results\<close>

text \<open>
  \<^verbatim>\<open>load_results\<close> is the same function in \<^verbatim>\<open>app.py\<close> and \<^verbatim>\<open>visualization.py\<close>. The
  directory \<^verbatim>\<open>results\<close> maps a file name to the table in the file; the result is the
  dictionary of the tables found, keyed by the file name up to its first dot, in the
  order of insertion. Every consumer then subscripts the dictionary with a table name.
\<close>

definition required_files :: "string list" where
  "required_files =
     [''annual_global_avg.csv'', ''annual_regional_avg.csv'', ''seasonal_avg.csv'',
      ''decadal_avg.csv'', ''extreme_counts.csv'', ''processed_data.csv'']"

definition table_key :: "string \<Rightarrow> string" where
  "table_key file = takeWhile (\<lambda>c. c \<noteq> CHR ''.'') file"

definition load_results :: "(string \<Rightarrow> 't option) \<Rightarrow> error + (string \<times> 't) list" where
  "load_results files =
     (let results = concat (map (\<lambda>file. case files file of
                                            Some t \<Rightarrow> [(table_key file, t)]
                                          | None \<Rightarrow> []) required_files)
      in if results = [] then Inl FileNotFoundError else Inr results)"

definition getitem :: "(string \<times> 't) list \<Rightarrow> string \<Rightarrow> error + 't" where
  "getitem results key = (case map_of results key of None \<Rightarrow> Inl (KeyError key) | Some t \<Rightarrow> Inr t)"

definition request_table :: "(string \<Rightarrow> 't option) \<Rightarrow> string \<Rightarrow> error + 't" where
  "request_table files key =
     (case load_results files of Inl e \<Rightarrow> Inl e | Inr results \<Rightarrow> getitem results key)"

section \<open>Auxiliary notions and example inputs\<close>

text \<open>The mean of the records of one year, as a real; only meaningful for a year
  that occurs in the data.\<close>

definition year_mean :: "enriched list \<Rightarrow> int \<Rightarrow> real" where
  "year_mean data y =
     sum_list (map temperature_c (filter (\<lambda>d. year d = y) data)) /
       real (length (filter (\<lambda>d. year d = y) data))"

text \<open>A station on the equator with one record.\<close>

definition equator_metadata :: "station_metadata list" where
  "equator_metadata =
     [\<lparr>station_metadata.station_id = ''EQ'', latitude = 0, longitude = - 78, elevation = 2850,
       name = ''Equator'', country = ''ECU''\<rparr>]"

definition equator_temp_df :: "temperature_record list" where
  "equator_temp_df = [\<lparr>station_id = ''EQ'', year = 2000, month = 3, temperature = 251\<rparr>]"

text \<open>Three enriched records of two stations over two years.\<close>

definition two_year_data :: "enriched list" where
  "two_year_data =
     [\<lparr>station_id = ''A'', year = 2000, month = 1, temperature = 100, temperature_c = 10,
       date = (2000, 1, 1), season = Some Winter, latitude = 45, longitude = 7, elevation = 300,
       name = ''Alpha'', country = ''FRA'', region = Some Northern, decade = None\<rparr>,
      \<lparr>station_id = ''A'', year = 2001, month = 1, temperature = 120, temperature_c = 12,
       date = (2001, 1, 1), season = Some Winter, latitude = 45, longitude = 7, elevation = 300,
       name = ''Alpha'', country = ''FRA'', region = Some Northern, decade = None\<rparr>,
      \<lparr>station_id = ''B'', year = 2001, month = 7, temperature = 280, temperature_c = 28,
       date = (2001, 7, 1), season = Some Summer, latitude = 10, longitude = 20, elevation = 50,
       name = ''Beta'', country = ''IND'', region = Some TropicalN, decade = None\<rparr>]"

text \<open>An enriched record of a station at latitude 45, built by the Enricher's own
  functions; \<open>t\<close> is the temperature in tenths of a degree.\<close>

definition example_row :: "string \<Rightarrow> int \<Rightarrow> int \<Rightarrow> enriched" where
  "example_row s y t =
     join_metadata (add_columns \<lparr>station_id = s, year = y, month = 1, temperature = t\<rparr>)
       \<lparr>station_metadata.station_id = s, latitude = 45, longitude = 7, elevation = 300,
        name = s, country = ''FRA''\<rparr>"

text \<open>A station with one record above its mean plus two standard deviations (mean 2,
  standard deviation 2), and a station with a single record.\<close>

definition hot_data :: "enriched list" where
  "hot_data =
     [example_row ''H'' 2000 70, example_row ''H'' 2001 10, example_row ''H'' 2002 10,
      example_row ''H'' 2003 10, example_row ''H'' 2004 0, example_row ''H'' 2005 20,
      example_row ''H'' 2006 20, example_row ''H'' 2007 20, example_row ''H'' 2008 20,
      example_row ''L'' 2008 (- 300)]"

text \<open>The same for a station at latitude 75.\<close>

definition arctic_row :: "string \<Rightarrow> int \<Rightarrow> int \<Rightarrow> enriched" where
  "arctic_row s y t =
     join_metadata (add_columns \<lparr>station_id = s, year = y, month = 1, temperature = t\<rparr>)
       \<lparr>station_metadata.station_id = s, latitude = 75, longitude = 20, elevation = 10,
        name = s, country = ''NOR''\<rparr>"

text \<open>A station of the region Northern with records in 1970 and 2000, and a station
  of the region Arctic with a record in 2000 only.\<close>

definition baseline_data :: "enriched list" where
  "baseline_data =
     [example_row ''N'' 1970 100, example_row ''N'' 2000 120, arctic_row ''P'' 2000 (- 150)]"

text \<open>A data directory with no file, and two states of the results directory: only
  the seasonal table written, and nothing written. A table is stood for by a number.\<close>

definition empty_dir :: data_dir where
  "empty_dir = \<lparr>temperature_data_csv = None, station_metadata_csv = None, ghcnm_data_tar_gz = None\<rparr>"

definition partial_results :: "string \<Rightarrow> nat option" where
  "partial_results = (\<lambda>file. if file = ''seasonal_avg.csv'' then Some 7 else None)"

definition no_results :: "string \<Rightarrow> nat option" where
  "no_results = (\<lambda>file. None)"

section \<open>Season and region\<close>

lemma season_add_columns: "season (add_columns t) = season_of (month t)"
  by (simp add: add_columns_def temperature_record.extend_def)

lemma add_columns_fields:
  "month (add_columns t) = month t"
  "year (add_columns t) = year t"
  "station_id (add_columns t) = station_id t"
  "temperature (add_columns t) = temperature t"
  "temperature_c (add_columns t) = real_of_int (temperature t) / 10"
  by (simp_all add: add_columns_def temperature_record.extend_def)

lemma join_metadata_fields:
  "season (join_metadata p m) = season p"
  "month (join_metadata p m) = month p"
  "year (join_metadata p m) = year p"
  "station_id (join_metadata p m) = station_id p"
  "temperature_c (join_metadata p m) = temperature_c p"
  "latitude (join_metadata p m) = station_metadata.latitude m"
  "region (join_metadata p m) = region_of (station_metadata.latitude m)"
  "decade (join_metadata p m) = None"
  by (simp_all add: join_metadata_def preprocessed.extend_def)

lemma preprocess_data_rows:
  assumes "preprocess_data temp_df metadata = Inr (temp_df', data)" and "d \<in> set data"
  shows "\<exists>t \<in> set temp_df. \<exists>m \<in> set metadata.
           station_metadata.station_id m = station_id t \<and> d = join_metadata (add_columns t) m"
proof -
  from assms have "d \<in> set (merge_metadata (map add_columns temp_df) metadata)"
    by (auto simp: preprocess_data_def Let_def split: if_splits)
  then obtain t m where "t \<in> set temp_df" "m \<in> set metadata"
    "station_metadata.station_id m = station_id (add_columns t)"
    "d = join_metadata (add_columns t) m"
    by (auto simp: merge_metadata_def)
  then show ?thesis
    by (auto simp: add_columns_fields)
qed

text \<open>Every record that the Enricher returns has the season and the region that
  \<open>season_of\<close> and \<open>region_of\<close> give for its month and its latitude.\<close>

lemma preprocess_data_season_region:
  assumes "preprocess_data temp_df metadata = Inr (temp_df', data)" and "d \<in> set data"
  shows "season d = season_of (month d)" and "region d = region_of (latitude d)"
proof -
  from preprocess_data_rows[OF assms] obtain t m where
    d: "d = join_metadata (add_columns t) m" by blast
  show "season d = season_of (month d)"
    by (simp add: d join_metadata_fields season_add_columns add_columns_fields)
  show "region d = region_of (latitude d)"
    by (simp add: d join_metadata_fields)
qed

text \<open>
  C1. The claim is the table of the meteorological seasons (March to Spring, June to
  Summer, September to Fall), which is also what the comment on line 165 promises. The
  code cuts the months at 3, 6 and 9 with closed upper ends, so that every record of
  March is in Winter, of June in Spring and of September in Summer. The theorem
  evaluates the season of each of the twelve months.
\<close>

theorem season_of_months:
  "map season_of [1, 2, 3, 4, 5, 6, 7, 8, 9, 10, 11, 12] =
     [Some Winter, Some Winter, Some Winter, Some Spring, Some Spring, Some Spring,
      Some Summer, Some Summer, Some Summer, Some Fall, Some Fall, Some Winter]"
  by (simp add: season_of_def)

lemma cut_region:
  assumes "- 90 < lat" "lat \<le> 90"
  shows "region_of lat = Some (if lat \<le> - 60 then Antarctica else if lat \<le> - 30 then Southern
           else if lat \<le> 0 then TropicalS else if lat \<le> 30 then TropicalN
           else if lat \<le> 60 then Northern else Arctic)"
  using assms by (simp add: region_of_def)

lemma region_of_outside: "lat \<le> - 90 \<or> 90 < lat \<Longrightarrow> region_of lat = None"
  by (auto simp add: region_of_def)

text \<open>
  C2 (amended). The region of a record is the cut of the latitude of its station at
  - 90, - 60, - 30, 0, 30, 60 and 90 with closed upper ends: on the latitudes above - 90
  and up to 90 it is the band of the table, so that latitude 0 is in Tropical S (not in
  Tropical N) and latitude 90 in Arctic.
\<close>

theorem region_right_closed_bins:
  assumes "preprocess_data temp_df metadata = Inr (temp_df', data)" and "d \<in> set data"
    and "- 90 < latitude d" and "latitude d \<le> 90"
  shows "region d = Some (if latitude d \<le> - 60 then Antarctica else if latitude d \<le> - 30 then Southern
           else if latitude d \<le> 0 then TropicalS else if latitude d \<le> 30 then TropicalN
           else if latitude d \<le> 60 then Northern else Arctic)
         \<and> (latitude d = 0 \<longrightarrow> region d = Some TropicalS)
         \<and> (latitude d = 90 \<longrightarrow> region d = Some Arctic)"
proof -
  from preprocess_data_rows[OF assms(1,2)] obtain t m where
    d: "d = join_metadata (add_columns t) m" by blast
  have "region d = region_of (latitude d)"
    by (simp add: d join_metadata_fields)
  with cut_region[OF assms(3,4)] show ?thesis by simp
qed

text \<open>The station on the equator.\<close>

theorem region_right_closed_bins_witness:
  "preprocess_data equator_temp_df equator_metadata =
     Inr (map add_columns equator_temp_df,
          [join_metadata (add_columns (hd equator_temp_df)) (hd equator_metadata)])
   \<and> latitude (join_metadata (add_columns (hd equator_temp_df)) (hd equator_metadata)) = 0
   \<and> region (join_metadata (add_columns (hd equator_temp_df)) (hd equator_metadata)) = Some TropicalS"
proof -
  let ?d = "join_metadata (add_columns (hd equator_temp_df)) (hd equator_metadata)"
  have p: "preprocess_data equator_temp_df equator_metadata =
     Inr (map add_columns equator_temp_df, [?d])"
    by (simp add: preprocess_data_def equator_temp_df_def equator_metadata_def valid_date_def
        merge_metadata_def add_columns_fields)
  have l: "latitude ?d = 0"
    by (simp add: join_metadata_fields equator_metadata_def)
  from region_right_closed_bins[OF p, of ?d] l p show ?thesis by simp
qed

text \<open>The claim of C2 as stated fails at latitude 0, which the cut puts in Tropical S,
  and at latitude - 90, which is in no interval.\<close>

theorem region_of_boundaries_counterexample:
  "region_of 0 = Some TropicalS \<and> region_of (- 90) = None"
  by (simp add: region_of_def)

section \<open>Global annual anomaly\<close>

lemma nanmean_Some: "nanmean (map (\<lambda>y. Some (f y)) ys) = mean (map f ys)"
proof -
  have "concat (map (\<lambda>x. case x of None \<Rightarrow> [] | Some v \<Rightarrow> [v]) (map (\<lambda>y. Some (f y)) ys)) = map f ys"
    by (induction ys) simp_all
  then show ?thesis by (simp add: nanmean_def)
qed

lemma sum_list_sub_const:
  "sum_list (map (\<lambda>y. f y - c) ys) = sum_list (map f ys) - real (length ys) * (c::real)"
  by (induction ys) (simp_all add: algebra_simps)

lemma mean_centered:
  assumes "ys \<noteq> []"
  shows "mean (map (\<lambda>y. f y - sum_list (map f ys) / real (length ys)) ys) = Some 0"
  using assms by (simp add: mean_def sum_list_sub_const)

lemma mean_year_group:
  assumes "y \<in> set (map year data)"
  shows "mean (map temperature_c (filter (\<lambda>d. year d = y) data)) = Some (year_mean data y)"
proof -
  from assms have "filter (\<lambda>d. year d = y) data \<noteq> []"
    by (auto simp: filter_empty_conv)
  then show ?thesis by (simp add: mean_def year_mean_def)
qed

lemma annual_global_avg_eq:
  "annual_global_avg data =
     map (\<lambda>y. (y, Some (year_mean data y),
                nan_sub (Some (year_mean data y))
                  (mean (map (year_mean data) (sort (remdups (map year data)))))))
       (sort (remdups (map year data)))"
proof -
  let ?ys = "sort (remdups (map year data))"
  have avg: "map (\<lambda>y. (y, mean (map temperature_c (filter (\<lambda>d. year d = y) data)))) ?ys
      = map (\<lambda>y. (y, Some (year_mean data y))) ?ys"
    by (rule map_cong) (simp_all add: mean_year_group)
  have "map snd (map (\<lambda>y. (y, Some (year_mean data y))) ?ys) = map (\<lambda>y. Some (year_mean data y)) ?ys"
    by simp
  then show ?thesis
    unfolding annual_global_avg_def avg Let_def
    by (simp add: nanmean_Some o_def)
qed

text \<open>
  C4. For a non-empty record set, every row of the global annual table holds the mean
  of its year and that mean minus the mean of the column of yearly means; the table has
  one row for every year of the data; and the mean of the anomaly column is zero.
\<close>

theorem global_anomaly_mean_zero:
  assumes "data \<noteq> []"
  shows "(\<forall>(y, t, a) \<in> set (annual_global_avg data).
            t = mean (map temperature_c (filter (\<lambda>d. year d = y) data)) \<and>
            a = nan_sub t (nanmean (map (\<lambda>(y, t, a). t) (annual_global_avg data))) \<and>
            t \<noteq> None \<and> a \<noteq> None)
         \<and> map fst (annual_global_avg data) = sort (remdups (map year data))
         \<and> nanmean (map (\<lambda>(y, t, a). a) (annual_global_avg data)) = Some 0"
proof -
  let ?ys = "sort (remdups (map year data))"
  let ?f = "year_mean data"
  let ?m = "sum_list (map ?f ?ys) / real (length ?ys)"
  from assms have ne: "?ys \<noteq> []"
    by (metis list.map_disc_iff remdups_eq_nil_iff set_empty set_sort)
  then have m: "mean (map ?f ?ys) = Some ?m"
    by (simp add: mean_def)
  have tbl: "annual_global_avg data = map (\<lambda>y. (y, Some (?f y), Some (?f y - ?m))) ?ys"
    by (simp add: annual_global_avg_eq m)
  have col_t: "map (\<lambda>(y, t, a). t) (annual_global_avg data) = map (\<lambda>y. Some (?f y)) ?ys"
    by (simp add: tbl o_def)
  have col_a: "map (\<lambda>(y, t, a). a) (annual_global_avg data) = map (\<lambda>y. Some (?f y - ?m)) ?ys"
    by (simp add: tbl o_def)
  have mt: "nanmean (map (\<lambda>(y, t, a). t) (annual_global_avg data)) = Some ?m"
    unfolding col_t nanmean_Some by (rule m)
  have rows: "\<forall>(y, t, a) \<in> set (annual_global_avg data).
            t = mean (map temperature_c (filter (\<lambda>d. year d = y) data)) \<and>
            a = nan_sub t (nanmean (map (\<lambda>(y, t, a). t) (annual_global_avg data))) \<and>
            t \<noteq> None \<and> a \<noteq> None"
    unfolding mt by (auto simp: tbl mean_year_group)
  have keys: "map fst (annual_global_avg data) = ?ys"
    by (simp add: tbl o_def)
  have zero: "nanmean (map (\<lambda>(y, t, a). a) (annual_global_avg data)) = Some 0"
    unfolding col_a nanmean_Some using mean_centered[OF ne, of ?f] .
  from rows keys zero show ?thesis by blast
qed

text \<open>The table of the three example records.\<close>

theorem global_anomaly_mean_zero_witness:
  "two_year_data \<noteq> []
   \<and> annual_global_avg two_year_data = [(2000, Some 10, Some (- 5)), (2001, Some 20, Some 5)]
   \<and> nanmean (map (\<lambda>(y, t, a). a) (annual_global_avg two_year_data)) = Some 0"
proof -
  have ne: "two_year_data \<noteq> []"
    by (simp add: two_year_data_def)
  have tbl: "annual_global_avg two_year_data = [(2000, Some 10, Some (- 5)), (2001, Some 20, Some 5)]"
    by (simp add: annual_global_avg_def two_year_data_def mean_def nanmean_def)
  from global_anomaly_mean_zero[OF ne] ne tbl show ?thesis by blast
qed

section \<open>Extreme temperatures: flags and counts\<close>

lemma filter_eq_distinct:
  "distinct xs \<Longrightarrow> x \<in> set xs \<Longrightarrow> filter (\<lambda>s. s = x) xs = [x]"
  by (induction xs) (auto simp: filter_empty_conv)

lemma filter_station_stats:
  assumes "d \<in> set data"
  shows "filter (\<lambda>(s, m, sd). s = station_id d) (station_stats data) =
           [(station_id d, mean (station_temps data (station_id d)),
                           std (station_temps data (station_id d)))]"
proof -
  have "filter (\<lambda>(s, m, sd). s = station_id d) (station_stats data) =
          map (\<lambda>s. (s, mean (station_temps data s), std (station_temps data s)))
            (filter (\<lambda>s. s = station_id d) (remdups (map station_id data)))"
    by (simp add: station_stats_def filter_map o_def split_def)
  also have "filter (\<lambda>s. s = station_id d) (remdups (map station_id data)) = [station_id d]"
    using assms by (intro filter_eq_distinct) auto
  finally show ?thesis by (simp add: split_def)
qed

lemma concat_map_single:
  "(\<forall>x \<in> set xs. g x = [f x]) \<Longrightarrow> concat (map g xs) = map f xs"
  by (induction xs) simp_all

lemma flag_extremes_eq:
  "flag_extremes data =
     map (\<lambda>d. flag_row d (station_id d, mean (station_temps data (station_id d)),
                                       std (station_temps data (station_id d)))) data"
  unfolding flag_extremes_def
  by (rule concat_map_single) (simp add: filter_station_stats)

lemma flag_row_fields:
  "station_id (flag_row d (s, m, sd)) = station_id d"
  "year (flag_row d (s, m, sd)) = year d"
  "temperature_c (flag_row d (s, m, sd)) = temperature_c d"
  "region (flag_row d (s, m, sd)) = region d"
  "decade (flag_row d (s, m, sd)) = Some ((year d div 10) * 10)"
  "station_mean (flag_row d (s, m, sd)) = m"
  "station_std (flag_row d (s, m, sd)) = sd"
  "extreme_hot (flag_row d (s, m, sd)) =
     nan_gt (Some (temperature_c d)) (nan_add m (map_option ((*) 2) sd))"
  "extreme_cold (flag_row d (s, m, sd)) =
     nan_lt (Some (temperature_c d)) (nan_sub m (map_option ((*) 2) sd))"
  by (simp_all add: flag_row_def enriched.extend_def set_decade_def)

lemma std_nonneg:
  assumes "std xs = Some s"
  shows "0 \<le> s"
proof -
  let ?m = "sum_list xs / real (length xs)"
  from assms have n: "2 \<le> length xs"
    and s: "s = sqrt (sum_list (map (\<lambda>x. (x - ?m)\<^sup>2) xs) / real (length xs - 1))"
    by (auto simp: std_def Let_def split: if_splits)
  have "0 \<le> sum_list (map (\<lambda>x. (x - ?m)\<^sup>2) xs)"
    by (rule sum_list_nonneg) auto
  then show ?thesis
    unfolding s by simp
qed

lemma std_single: "length xs = 1 \<Longrightarrow> std xs = None"
  by (simp add: std_def)

lemma flagged_row:
  assumes "r \<in> set (flag_extremes data)"
  shows "station_mean r = mean (station_temps data (station_id r))"
    and "station_std r = std (station_temps data (station_id r))"
    and "extreme_hot r \<longleftrightarrow>
            (\<exists>m s. station_mean r = Some m \<and> station_std r = Some s \<and> temperature_c r > m + 2 * s)"
    and "extreme_cold r \<longleftrightarrow>
            (\<exists>m s. station_mean r = Some m \<and> station_std r = Some s \<and> temperature_c r < m - 2 * s)"
proof -
  from assms obtain d where
    r: "r = flag_row d (station_id d, mean (station_temps data (station_id d)),
                                       std (station_temps data (station_id d)))"
    by (auto simp: flag_extremes_eq)
  let ?m = "mean (station_temps data (station_id d))"
  let ?s = "std (station_temps data (station_id d))"
  show "station_mean r = mean (station_temps data (station_id r))"
    and "station_std r = std (station_temps data (station_id r))"
    by (simp_all add: r flag_row_fields)
  show "extreme_hot r \<longleftrightarrow>
            (\<exists>m s. station_mean r = Some m \<and> station_std r = Some s \<and> temperature_c r > m + 2 * s)"
    by (cases ?m; cases ?s) (simp_all add: r flag_row_fields)
  show "extreme_cold r \<longleftrightarrow>
            (\<exists>m s. station_mean r = Some m \<and> station_std r = Some s \<and> temperature_c r < m - 2 * s)"
    by (cases ?m; cases ?s) (simp_all add: r flag_row_fields)
qed

lemma flagged_row_std_nonneg:
  assumes "r \<in> set (flag_extremes data)" and "station_std r = Some s"
  shows "0 \<le> s"
  using assms flagged_row(2)[OF assms(1)] by (auto dest: std_nonneg)

lemma not_hot_and_cold:
  assumes "r \<in> set (flag_extremes data)"
  shows "\<not> (extreme_hot r \<and> extreme_cold r)"
proof
  assume hc: "extreme_hot r \<and> extreme_cold r"
  from hc obtain m s where ms: "station_mean r = Some m" "station_std r = Some s"
    and hot: "temperature_c r > m + 2 * s"
    unfolding flagged_row(3)[OF assms] by blast
  from hc obtain m' s' where ms': "station_mean r = Some m'" "station_std r = Some s'"
    and cold: "temperature_c r < m' - 2 * s'"
    unfolding flagged_row(4)[OF assms] by blast
  from ms ms' have "m' = m" "s' = s" by simp_all
  moreover from ms(2) have "0 \<le> s" by (rule flagged_row_std_nonneg[OF assms])
  ultimately show False using hot cold by simp
qed

lemma length_filter_disjoint:
  "(\<forall>x \<in> set xs. \<not> (P x \<and> Q x)) \<Longrightarrow> length (filter P xs) + length (filter Q xs) \<le> length xs"
  by (induction xs) auto

lemma group_rows_flag_extremes:
  "length (group_rows decade region y r (flag_extremes data)) =
     length (filter (\<lambda>d. (year d div 10) * 10 = y \<and> region d = Some r) data)"
  by (simp add: group_rows_def flag_extremes_eq filter_map o_def flag_row_fields)

text \<open>
  C10. No row of the flagged frame is both hot and cold, and in every row of the
  table of counts the two counts are non-negative and their sum is at most the number
  of records of that decade and region. This holds for either default of \<open>observed\<close>.
\<close>

theorem extreme_counts_bounded:
  "(\<forall>r \<in> set (flag_extremes data). \<not> (extreme_hot r \<and> extreme_cold r))
   \<and> (\<forall>(dec, reg, hot, cold) \<in> set (analyze_extreme_temperatures observed data).
        0 \<le> hot \<and> 0 \<le> cold \<and>
        hot + cold \<le> int (length (filter (\<lambda>d. (year d div 10) * 10 = dec \<and> region d = Some reg) data)))"
proof -
  have excl: "\<forall>r \<in> set (flag_extremes data). \<not> (extreme_hot r \<and> extreme_cold r)"
    using not_hot_and_cold by blast
  have cell: "int (length (filter extreme_hot (group_rows decade region y r (flag_extremes data))))
            + int (length (filter extreme_cold (group_rows decade region y r (flag_extremes data))))
            \<le> int (length (filter (\<lambda>d. (year d div 10) * 10 = y \<and> region d = Some r) data))" for y r
  proof -
    let ?g = "group_rows decade region y r (flag_extremes data)"
    have "\<forall>x \<in> set ?g. \<not> (extreme_hot x \<and> extreme_cold x)"
      using excl by (simp add: group_rows_def)
    then have "length (filter extreme_hot ?g) + length (filter extreme_cold ?g) \<le> length ?g"
      by (rule length_filter_disjoint)
    then show ?thesis
      by (simp add: group_rows_flag_extremes[symmetric])
  qed
  have "\<forall>(dec, reg, hot, cold) \<in> set (analyze_extreme_temperatures observed data).
        0 \<le> hot \<and> 0 \<le> cold \<and>
        hot + cold \<le> int (length (filter (\<lambda>d. (year d div 10) * 10 = dec \<and> region d = Some reg) data))"
  proof
    fix row assume "row \<in> set (analyze_extreme_temperatures observed data)"
    then obtain y r where
      "row = (y, r, int (length (filter extreme_hot (group_rows decade region y r (flag_extremes data)))),
                    int (length (filter extreme_cold (group_rows decade region y r (flag_extremes data)))))"
      by (auto simp: analyze_extreme_temperatures_def extreme_counts_def)
    with cell[of y r] show "case row of (dec, reg, hot, cold) \<Rightarrow>
        0 \<le> hot \<and> 0 \<le> cold \<and>
        hot + cold \<le> int (length (filter (\<lambda>d. (year d div 10) * 10 = dec \<and> region d = Some reg) data))"
      by simp
  qed
  with excl show ?thesis by (intro conjI)
qed

text \<open>
  C6 (amended). For a station with exactly one record the standard deviation is
  missing (not 0), the flagged frame has a row for the station, and every row of the
  station has a missing standard deviation and neither flag.
\<close>

theorem single_record_station:
  assumes "filter (\<lambda>e. station_id e = station_id d) data = [d]"
  shows "std (station_temps data (station_id d)) = None
       \<and> (\<exists>r \<in> set (flag_extremes data). station_id r = station_id d)
       \<and> (\<forall>r \<in> set (flag_extremes data). station_id r = station_id d \<longrightarrow>
            station_std r = None \<and> \<not> extreme_hot r \<and> \<not> extreme_cold r)"
proof -
  have sd: "std (station_temps data (station_id d)) = None"
    by (simp add: station_temps_def assms std_def)
  have "d \<in> set (filter (\<lambda>e. station_id e = station_id d) data)"
    unfolding assms by simp
  then have din: "d \<in> set data"
    by simp
  let ?r = "flag_row d (station_id d, mean (station_temps data (station_id d)),
                                       std (station_temps data (station_id d)))"
  from din have "?r \<in> set (flag_extremes data)"
    unfolding flag_extremes_eq by (rule imageI[of d "set data", folded set_map])
  moreover have "station_id ?r = station_id d"
    by (simp add: flag_row_fields)
  ultimately have ex: "\<exists>r \<in> set (flag_extremes data). station_id r = station_id d"
    by blast
  have all: "\<forall>r \<in> set (flag_extremes data). station_id r = station_id d \<longrightarrow>
            station_std r = None \<and> \<not> extreme_hot r \<and> \<not> extreme_cold r"
  proof (intro ballI impI)
    fix r assume r: "r \<in> set (flag_extremes data)" and sid: "station_id r = station_id d"
    from flagged_row(2)[OF r] sid sd have "station_std r = None" by simp
    then show "station_std r = None \<and> \<not> extreme_hot r \<and> \<not> extreme_cold r"
      unfolding flagged_row(3)[OF r] flagged_row(4)[OF r] by simp
  qed
  from sd ex all show ?thesis by (intro conjI)
qed

lemma example_row_fields:
  "station_id (example_row s y t) = s"
  "year (example_row s y t) = y"
  "temperature_c (example_row s y t) = real_of_int t / 10"
  "region (example_row s y t) = Some Northern"
  by (simp_all add: example_row_def join_metadata_fields add_columns_fields region_of_def)

lemma hot_temps:
  "station_temps hot_data ''H'' = [7, 1, 1, 1, 0, 2, 2, 2, 2]"
  "station_temps hot_data ''L'' = [- 30]"
  by (simp_all add: station_temps_def hot_data_def example_row_fields)

lemma hot_stats:
  "mean [7, 1, 1, 1, 0, 2, 2, 2, 2] = Some 2" "std [7, 1, 1, 1, 0, 2, 2, 2, 2] = Some 2"
  "mean [- 30] = Some (- 30)" "std [- 30] = None"
  by (simp_all add: mean_def std_def)

lemma hot_flagged:
  "flag_extremes hot_data =
     [flag_row (example_row ''H'' 2000 70) (''H'', Some 2, Some 2),
      flag_row (example_row ''H'' 2001 10) (''H'', Some 2, Some 2),
      flag_row (example_row ''H'' 2002 10) (''H'', Some 2, Some 2),
      flag_row (example_row ''H'' 2003 10) (''H'', Some 2, Some 2),
      flag_row (example_row ''H'' 2004 0) (''H'', Some 2, Some 2),
      flag_row (example_row ''H'' 2005 20) (''H'', Some 2, Some 2),
      flag_row (example_row ''H'' 2006 20) (''H'', Some 2, Some 2),
      flag_row (example_row ''H'' 2007 20) (''H'', Some 2, Some 2),
      flag_row (example_row ''H'' 2008 20) (''H'', Some 2, Some 2),
      flag_row (example_row ''L'' 2008 (- 300)) (''L'', Some (- 30), None)]"
  unfolding flag_extremes_eq
  by (simp add: hot_data_def example_row_fields hot_temps[unfolded hot_data_def] hot_stats)

lemma hot_counts:
  "analyze_extreme_temperatures False hot_data =
     [(2000, Antarctica, 0, 0), (2000, Southern, 0, 0), (2000, TropicalS, 0, 0),
      (2000, TropicalN, 0, 0), (2000, Northern, 1, 0), (2000, Arctic, 0, 0)]"
  unfolding analyze_extreme_temperatures_def hot_flagged
  by (simp add: extreme_counts_def group_keys_def key_values_def group_rows_def regions_def
      flag_row_fields example_row_fields)

text \<open>
  The station with a single record of the example, at - 30 degrees.
\<close>

theorem single_record_station_witness:
  "filter (\<lambda>e. station_id e = station_id (example_row ''L'' 2008 (- 300))) hot_data =
     [example_row ''L'' 2008 (- 300)]
   \<and> std (station_temps hot_data ''L'') = None
   \<and> flag_row (example_row ''L'' 2008 (- 300)) (''L'', Some (- 30), None) \<in> set (flag_extremes hot_data)
   \<and> station_std (flag_row (example_row ''L'' 2008 (- 300)) (''L'', Some (- 30), None)) = None
   \<and> \<not> extreme_hot (flag_row (example_row ''L'' 2008 (- 300)) (''L'', Some (- 30), None))
   \<and> \<not> extreme_cold (flag_row (example_row ''L'' 2008 (- 300)) (''L'', Some (- 30), None))"
proof -
  let ?d = "example_row ''L'' 2008 (- 300)"
  let ?r = "flag_row ?d (''L'', Some (- 30), None)"
  have h: "filter (\<lambda>e. station_id e = station_id ?d) hot_data = [?d]"
    by (simp add: hot_data_def example_row_fields)
  have r: "?r \<in> set (flag_extremes hot_data)"
    by (simp add: hot_flagged)
  have sid: "station_id ?r = station_id ?d"
    by (simp add: flag_row_fields)
  from single_record_station[OF h] r sid
  have "std (station_temps hot_data (station_id ?d)) = None"
    and "station_std ?r = None \<and> \<not> extreme_hot ?r \<and> \<not> extreme_cold ?r"
    by blast+
  with h r show ?thesis
    by (simp add: example_row_fields)
qed

text \<open>
  The claim of C6 as stated gives the station a standard deviation of 0; the
  statistics of a single record are its value as the mean and a missing standard
  deviation.
\<close>

theorem single_record_std_counterexample:
  "station_stats [example_row ''L'' 2008 (- 300)] = [(''L'', Some (- 30), None)]"
  by (simp add: station_stats_def station_temps_def example_row_fields mean_def std_def)

text \<open>
  The decade 2000 in the region Northern of the example: ten records, one of them hot.
\<close>

theorem extreme_counts_bounded_witness:
  "(2000, Northern, 1, 0) \<in> set (analyze_extreme_temperatures False hot_data)
   \<and> (1::int) + 0 \<le> int (length (filter (\<lambda>d. (year d div 10) * 10 = 2000 \<and> region d = Some Northern) hot_data))
   \<and> extreme_hot (flag_row (example_row ''H'' 2000 70) (''H'', Some 2, Some 2))
   \<and> \<not> extreme_cold (flag_row (example_row ''H'' 2000 70) (''H'', Some 2, Some 2))"
proof -
  let ?r = "flag_row (example_row ''H'' 2000 70) (''H'', Some 2, Some 2)"
  have row: "(2000, Northern, 1, 0) \<in> set (analyze_extreme_temperatures False hot_data)"
    by (simp add: hot_counts)
  have r: "?r \<in> set (flag_extremes hot_data)"
    by (simp add: hot_flagged)
  have hot: "extreme_hot ?r"
    by (simp add: flag_row_fields example_row_fields)
  from extreme_counts_bounded[of hot_data False] row r hot show ?thesis
    by blast
qed

section \<open>Regional anomaly against the baseline\<close>

lemma in_regions: "r \<in> set regions"
  by (cases r) (simp_all add: regions_def)

lemma distinct_regions: "distinct regions"
  by (simp add: regions_def)

lemma key_values_year: "key_values (\<lambda>d. Some (year d)) data = sort (remdups (map year data))"
proof -
  have "concat (map (\<lambda>d. case Some (year d) of None \<Rightarrow> [] | Some v \<Rightarrow> [v]) data) = map year data"
    by (induction data) simp_all
  then show ?thesis by (simp add: key_values_def)
qed

lemma nanmean_all_None: "(\<forall>x \<in> set xs. x = None) \<Longrightarrow> nanmean xs = None"
proof -
  assume "\<forall>x \<in> set xs. x = None"
  then have "concat (map (\<lambda>x. case x of None \<Rightarrow> [] | Some v \<Rightarrow> [v]) xs) = []"
    by (induction xs) simp_all
  then show ?thesis by (simp add: nanmean_def mean_def)
qed

lemma regional_avg_False:
  "regional_avg False data =
     map (\<lambda>(y, r). (y, r, mean (map temperature_c (filter (\<lambda>d. year d = y \<and> region d = Some r) data))))
       (List.product (sort (remdups (map year data))) regions)"
  by (simp add: regional_avg_def grouped_mean_def group_keys_def key_values_year group_rows_def)

lemma filter_baselines_False:
  "filter (\<lambda>(r', b). r' = r) (regional_baselines False avg) = [(r, baseline_temp (baseline_period avg) r)]"
proof -
  have "filter (\<lambda>(r', b). r' = r) (regional_baselines False avg) =
          map (\<lambda>r. (r, baseline_temp (baseline_period avg) r)) (filter (\<lambda>r'. r' = r) regions)"
    by (simp add: regional_baselines_def filter_map o_def)
  also have "filter (\<lambda>r'. r' = r) regions = [r]"
    by (intro filter_eq_distinct distinct_regions in_regions)
  finally show ?thesis by simp
qed

lemma annual_regional_avg_False:
  "annual_regional_avg False data =
     map (\<lambda>(y, r, t). (y, r, t, baseline_temp (baseline_period (regional_avg False data)) r,
                         nan_sub t (baseline_temp (baseline_period (regional_avg False data)) r)))
       (regional_avg False data)"
  unfolding annual_regional_avg_def Let_def
  by (rule concat_map_single) (auto simp: filter_baselines_False)

lemma baseline_temp_None:
  assumes "\<forall>d \<in> set data. region d = Some r \<longrightarrow> \<not> (1961 \<le> year d \<and> year d \<le> 1990)"
  shows "baseline_temp (baseline_period (regional_avg False data)) r = None"
  unfolding baseline_temp_def
proof (rule nanmean_all_None, rule ballI)
  fix x
  assume "x \<in> set (map (\<lambda>(y, r', t). t)
            (filter (\<lambda>(y, r', t). r' = r) (baseline_period (regional_avg False data))))"
  then obtain y where y: "1961 \<le> y" "y \<le> 1990"
    and x: "x = mean (map temperature_c (filter (\<lambda>d. year d = y \<and> region d = Some r) data))"
    by (auto simp: baseline_period_def regional_avg_False)
  from assms y have "filter (\<lambda>d. year d = y \<and> region d = Some r) data = []"
    by (auto simp: filter_empty_conv)
  then show "x = None"
    by (simp add: x mean_def)
qed

text \<open>
  With the default \<open>observed = False\<close> of pandas before 3.0 the two groupings keep every
  region as a category: for a region without a record in 1961 to 1990 the table has, for
  every year of the data, the row of that year and region with a missing baseline and a
  missing anomaly.
\<close>

lemma regional_rows_kept_if_not_observed:
  assumes "\<forall>d \<in> set data. region d = Some r \<longrightarrow> \<not> (1961 \<le> year d \<and> year d \<le> 1990)"
  shows "\<forall>y \<in> set (map year data).
            (y, r, mean (map temperature_c (filter (\<lambda>d. year d = y \<and> region d = Some r) data)),
             None, None) \<in> set (annual_regional_avg False data)"
    and "\<forall>(y, r', t, b, a) \<in> set (annual_regional_avg False data).
            r' = r \<longrightarrow> b = None \<and> a = None"
proof -
  let ?B = "baseline_temp (baseline_period (regional_avg False data))"
  have B: "?B r = None"
    using assms by (rule baseline_temp_None)
  have present: "(y, r, mean (map temperature_c (filter (\<lambda>d. year d = y \<and> region d = Some r) data)),
             None, None) \<in> set (annual_regional_avg False data)" if "y \<in> set (map year data)" for y
  proof -
    let ?t = "mean (map temperature_c (filter (\<lambda>d. year d = y \<and> region d = Some r) data))"
    from that have "(y, r) \<in> set (List.product (sort (remdups (map year data))) regions)"
      by (simp add: in_regions)
    then have "(y, r, ?t) \<in> set (regional_avg False data)"
      unfolding regional_avg_False by force
    then have "(y, r, ?t, ?B r, nan_sub ?t (?B r)) \<in> set (annual_regional_avg False data)"
      unfolding annual_regional_avg_False by force
    then show ?thesis
      by (simp add: B)
  qed
  then show "\<forall>y \<in> set (map year data).
            (y, r, mean (map temperature_c (filter (\<lambda>d. year d = y \<and> region d = Some r) data)),
             None, None) \<in> set (annual_regional_avg False data)"
    by (intro ballI)
  show "\<forall>(y, r', t, b, a) \<in> set (annual_regional_avg False data).
            r' = r \<longrightarrow> b = None \<and> a = None"
    unfolding annual_regional_avg_False using B by auto
qed

text \<open>
  With the default \<open>observed = True\<close> of pandas from 3.0 the grouping by year and region
  has a row for every record of the region, but the region is no key of the table of
  baselines, and the inner join drops all its rows.
\<close>

lemma regional_avg_observed_row:
  assumes "d \<in> set data" and "region d = Some r"
  shows "(year d, r, mean (map temperature_c (filter (\<lambda>e. year e = year d \<and> region e = Some r) data)))
           \<in> set (regional_avg True data)"
proof -
  from assms have "(year d, r) \<in> set (group_keys True (\<lambda>d. Some (year d)) region regions data)"
    by (auto simp: group_keys_def key_values_year in_regions)
  then show ?thesis
    unfolding regional_avg_def grouped_mean_def group_rows_def by force
qed

lemma regional_rows_dropped_if_observed:
  assumes "\<forall>d \<in> set data. region d = Some r \<longrightarrow> \<not> (1961 \<le> year d \<and> year d \<le> 1990)"
  shows "\<forall>(y, r', t, b, a) \<in> set (annual_regional_avg True data). r' \<noteq> r"
proof -
  have no_base: "\<not> (\<exists>(y, r', t) \<in> set (baseline_period (regional_avg True data)). r' = r)"
    using assms
    by (auto simp: baseline_period_def regional_avg_def grouped_mean_def group_keys_def)
  then have "\<forall>(r', b) \<in> set (regional_baselines True (regional_avg True data)). r' \<noteq> r"
    by (auto simp: regional_baselines_def Let_def)
  then show ?thesis
    unfolding annual_regional_avg_def Let_def
    by auto
qed

lemma regional_rows_kept_if_observed:
  assumes "(y, r, t) \<in> set (regional_avg True data)"
    and "d \<in> set data" and "region d = Some r" and "1961 \<le> year d" and "year d \<le> 1990"
  shows "(y, r, t, baseline_temp (baseline_period (regional_avg True data)) r,
          nan_sub t (baseline_temp (baseline_period (regional_avg True data)) r))
           \<in> set (annual_regional_avg True data)"
proof -
  let ?avg = "regional_avg True data"
  let ?B = "baseline_temp (baseline_period ?avg)"
  from regional_avg_observed_row[OF assms(2,3)] assms(4,5)
  have "\<exists>(y', r', t') \<in> set (baseline_period ?avg). r' = r"
    unfolding baseline_period_def by force
  then have "(r, ?B r) \<in> set (regional_baselines True ?avg)"
    by (simp add: regional_baselines_def Let_def in_regions)
  then have "(y, r, t, ?B r, nan_sub t (?B r)) \<in>
      set (map (\<lambda>(r', b). (y, r, t, b, nan_sub t b))
             (filter (\<lambda>(r', b). r' = r) (regional_baselines True ?avg)))"
    by force
  with assms(1) show ?thesis
    unfolding annual_regional_avg_def Let_def by force
qed

text \<open>
  C3 (amended). The source leaves the option \<open>observed\<close> of the groupings to the default
  of pandas. For a region without a record in 1961 to 1990: with the default \<open>True\<close> of
  pandas from 3.0 the means of the region by year are computed, one row for each of its
  records' years, and the inner join with the baselines drops every row of the region
  from the regional annual table, while it keeps, with their baseline, the rows of a
  region that has a record in those years; with the default \<open>False\<close> of pandas before 3.0 the
  table has the row of the region for every year of the data, with a missing baseline
  and a missing anomaly; under either default no row of the region has a baseline or an
  anomaly that is not missing, so none has the anomaly 0.
\<close>

theorem regional_baseline_undefined:
  assumes "\<forall>d \<in> set data. region d = Some r \<longrightarrow> \<not> (1961 \<le> year d \<and> year d \<le> 1990)"
  shows "(\<forall>d \<in> set data. region d = Some r \<longrightarrow>
            (year d, r, mean (map temperature_c (filter (\<lambda>e. year e = year d \<and> region e = Some r) data)))
              \<in> set (regional_avg True data))
       \<and> (\<forall>(y, r', t, b, a) \<in> set (annual_regional_avg True data). r' \<noteq> r)
       \<and> (\<forall>(y, r', t) \<in> set (regional_avg True data).
            (\<exists>d \<in> set data. region d = Some r' \<and> 1961 \<le> year d \<and> year d \<le> 1990) \<longrightarrow>
            (y, r', t, baseline_temp (baseline_period (regional_avg True data)) r',
             nan_sub t (baseline_temp (baseline_period (regional_avg True data)) r'))
              \<in> set (annual_regional_avg True data))
       \<and> (\<forall>y \<in> set (map year data).
            (y, r, mean (map temperature_c (filter (\<lambda>d. year d = y \<and> region d = Some r) data)),
             None, None) \<in> set (annual_regional_avg False data))
       \<and> (\<forall>(y, r', t, b, a) \<in> set (annual_regional_avg observed data).
            r' = r \<longrightarrow> b = None \<and> a = None \<and> a \<noteq> Some 0)"
proof -
  have computed: "\<forall>d \<in> set data. region d = Some r \<longrightarrow>
            (year d, r, mean (map temperature_c (filter (\<lambda>e. year e = year d \<and> region e = Some r) data)))
              \<in> set (regional_avg True data)"
    using regional_avg_observed_row by blast
  note dropped = regional_rows_dropped_if_observed[OF assms]
  note kept = regional_rows_kept_if_not_observed[OF assms]
  have missing: "\<forall>(y, r', t, b, a) \<in> set (annual_regional_avg observed data).
            r' = r \<longrightarrow> b = None \<and> a = None \<and> a \<noteq> Some 0"
  proof (cases observed)
    case True
    with dropped show ?thesis by auto
  next
    case False
    with kept(2) show ?thesis by auto
  qed
  have others: "\<forall>(y, r', t) \<in> set (regional_avg True data).
            (\<exists>d \<in> set data. region d = Some r' \<and> 1961 \<le> year d \<and> year d \<le> 1990) \<longrightarrow>
            (y, r', t, baseline_temp (baseline_period (regional_avg True data)) r',
             nan_sub t (baseline_temp (baseline_period (regional_avg True data)) r'))
              \<in> set (annual_regional_avg True data)"
    using regional_rows_kept_if_observed by blast
  from computed dropped others kept(1) missing show ?thesis
    by (intro conjI)
qed

lemma arctic_row_fields:
  "station_id (arctic_row s y t) = s"
  "year (arctic_row s y t) = y"
  "temperature_c (arctic_row s y t) = real_of_int t / 10"
  "region (arctic_row s y t) = Some Arctic"
  by (simp_all add: arctic_row_def join_metadata_fields add_columns_fields region_of_def)

lemma mean_eval:
  "mean [] = None"
  "mean (x # xs) = Some (sum_list (x # xs) / real (length (x # xs)))"
  by (simp_all add: mean_def)

text \<open>
  The regional annual table of the example with the default \<open>observed = False\<close>.
\<close>

lemma baseline_data_table:
  "annual_regional_avg False baseline_data =
     [(1970, Antarctica, None, None, None), (1970, Southern, None, None, None),
      (1970, TropicalS, None, None, None), (1970, TropicalN, None, None, None),
      (1970, Northern, Some 10, Some 10, Some 0), (1970, Arctic, None, None, None),
      (2000, Antarctica, None, None, None), (2000, Southern, None, None, None),
      (2000, TropicalS, None, None, None), (2000, TropicalN, None, None, None),
      (2000, Northern, Some 12, Some 10, Some 2), (2000, Arctic, Some (- 15), None, None)]"
  by (simp add: annual_regional_avg_def regional_avg_def grouped_mean_def group_keys_def key_values_def
      group_rows_def regional_baselines_def baseline_period_def baseline_temp_def regions_def
      baseline_data_def example_row_fields arctic_row_fields mean_eval nanmean_def Let_def)

text \<open>
  The claim of C3 as stated keeps the rows of such a region with a missing anomaly. In
  the example the region Arctic has a record in 2000 and none in 1961 to 1990; with the
  default \<open>observed = True\<close> the regional annual table has the two rows of the region
  Northern and no row of the region Arctic.
\<close>

theorem regional_rows_dropped_counterexample:
  "map (\<lambda>d. (region d, year d, temperature_c d)) baseline_data =
     [(Some Northern, 1970, 10), (Some Northern, 2000, 12), (Some Arctic, 2000, - 15)]
   \<and> annual_regional_avg True baseline_data =
     [(1970, Northern, Some 10, Some 10, Some 0), (2000, Northern, Some 12, Some 10, Some 2)]"
  by (simp add: annual_regional_avg_def regional_avg_def grouped_mean_def group_keys_def key_values_def
      group_rows_def regional_baselines_def baseline_period_def baseline_temp_def regions_def
      baseline_data_def example_row_fields arctic_row_fields mean_eval nanmean_def Let_def)

text \<open>
  The region Arctic of the example under both defaults.
\<close>

theorem regional_baseline_undefined_witness:
  "map (\<lambda>d. (region d, year d)) baseline_data =
     [(Some Northern, 1970), (Some Northern, 2000), (Some Arctic, 2000)]
   \<and> (2000, Arctic, Some (- 15)) \<in> set (regional_avg True baseline_data)
   \<and> (2000, Arctic, Some (- 15), None, None) \<notin> set (annual_regional_avg True baseline_data)
   \<and> (2000, Arctic, Some (- 15), None, None) \<in> set (annual_regional_avg False baseline_data)"
proof -
  have h: "\<forall>d \<in> set baseline_data. region d = Some Arctic \<longrightarrow> \<not> (1961 \<le> year d \<and> year d \<le> 1990)"
    by (simp add: baseline_data_def example_row_fields arctic_row_fields)
  have d: "arctic_row ''P'' 2000 (- 150) \<in> set baseline_data"
    "region (arctic_row ''P'' 2000 (- 150)) = Some Arctic"
    "year (arctic_row ''P'' 2000 (- 150)) = 2000"
    by (simp_all add: baseline_data_def arctic_row_fields)
  have y: "2000 \<in> set (map year baseline_data)"
    by (simp add: baseline_data_def example_row_fields arctic_row_fields)
  have t: "mean (map temperature_c (filter (\<lambda>d. year d = 2000 \<and> region d = Some Arctic) baseline_data))
             = Some (- 15)"
    by (simp add: baseline_data_def example_row_fields arctic_row_fields mean_def)
  note inst = regional_baseline_undefined[OF h, of True]
  from inst have "\<forall>d \<in> set baseline_data. region d = Some Arctic \<longrightarrow>
            (year d, Arctic,
             mean (map temperature_c (filter (\<lambda>e. year e = year d \<and> region e = Some Arctic) baseline_data)))
              \<in> set (regional_avg True baseline_data)"
    by (rule conjunct1)
  from this[THEN bspec, OF d(1)] d(2)
  have "(year (arctic_row ''P'' 2000 (- 150)), Arctic,
          mean (map temperature_c (filter (\<lambda>e. year e = year (arctic_row ''P'' 2000 (- 150))
             \<and> region e = Some Arctic) baseline_data)))
          \<in> set (regional_avg True baseline_data)"
    by (rule mp)
  then have a: "(2000, Arctic, Some (- 15)) \<in> set (regional_avg True baseline_data)"
    unfolding d(3) t .
  from inst have "\<forall>(y, r', t, b, a) \<in> set (annual_regional_avg True baseline_data). r' \<noteq> Arctic"
    by (rule conjunct2[THEN conjunct1])
  then have b: "(2000, Arctic, Some (- 15), None, None) \<notin> set (annual_regional_avg True baseline_data)"
    by fastforce
  from inst have "\<forall>y \<in> set (map year baseline_data).
            (y, Arctic, mean (map temperature_c (filter (\<lambda>d. year d = y \<and> region d = Some Arctic) baseline_data)),
             None, None) \<in> set (annual_regional_avg False baseline_data)"
    by (rule conjunct2[THEN conjunct2, THEN conjunct2, THEN conjunct1])
  from this[THEN bspec, OF y]
  have c: "(2000, Arctic, Some (- 15), None, None) \<in> set (annual_regional_avg False baseline_data)"
    unfolding t .
  have "map (\<lambda>d. (region d, year d)) baseline_data =
     [(Some Northern, 1970), (Some Northern, 2000), (Some Arctic, 2000)]"
    by (simp add: baseline_data_def example_row_fields arctic_row_fields)
  with a b c show ?thesis
    by (intro conjI)
qed

section \<open>Loading: the fallback to generated data\<close>








section \<open>Requesting a result table\<close>

lemma required_file_names: "\<forall>f \<in> set required_files. f = table_key f @ ''.csv''"
  by (simp add: required_files_def table_key_def)

lemma load_results_entries:
  assumes "load_results files = Inr results" and "(key, t) \<in> set results"
  shows "key \<in> set (map table_key required_files) \<and> files (key @ ''.csv'') = Some t"
proof -
  from assms obtain f where f: "f \<in> set required_files" "files f = Some t" "key = table_key f"
    by (auto simp: load_results_def Let_def split: if_splits option.splits)
  from f(1) required_file_names have "f = table_key f @ ''.csv''"
    by blast
  with f show ?thesis
    by auto
qed

lemma load_results_none:
  "load_results files = Inl e \<longleftrightarrow> e = FileNotFoundError \<and> (\<forall>f \<in> set required_files. files f = None)"
proof -
  have "concat (map (\<lambda>file. case files file of Some t \<Rightarrow> [(table_key file, t)] | None \<Rightarrow> [])
          required_files) = [] \<longleftrightarrow> (\<forall>f \<in> set required_files. files f = None)"
    by (auto split: option.splits)
  then show ?thesis
    by (auto simp: load_results_def Let_def)
qed

text \<open>
  C9. Subscripting the loaded results with a table name whose file is absent, or
  that is no table of the store, never returns a table: it fails with
  \<^verbatim>\<open>FileNotFoundError\<close>, raised by \<^verbatim>\<open>load_results\<close>, when no result file exists at all,
  and with the \<^verbatim>\<open>KeyError\<close> of the subscript otherwise.
\<close>

theorem request_absent_table_fails:
  assumes "files (key @ ''.csv'') = None \<or> key \<notin> set (map table_key required_files)"
  shows "request_table files key =
           Inl (if \<forall>f \<in> set required_files. files f = None then FileNotFoundError else KeyError key)"
proof (cases "load_results files")
  case (Inl e)
  then have "e = FileNotFoundError" and "\<forall>f \<in> set required_files. files f = None"
    using load_results_none[of files e] by blast+
  with Inl show ?thesis
    by (simp add: request_table_def)
next
  case (Inr results)
  have some: "\<not> (\<forall>f \<in> set required_files. files f = None)"
  proof
    assume "\<forall>f \<in> set required_files. files f = None"
    then have "load_results files = Inl FileNotFoundError"
      by (simp add: load_results_none)
    with Inr show False by simp
  qed
  have "map_of results key = None"
  proof (rule ccontr)
    assume "map_of results key \<noteq> None"
    then obtain t where "(key, t) \<in> set results"
      by (auto dest: map_of_SomeD)
    from load_results_entries[OF Inr this] assms show False
      by auto
  qed
  with Inr some show ?thesis
    by (simp add: request_table_def getitem_def)
qed

text \<open>
  The global table requested when only the seasonal table was written, and when
  nothing was.
\<close>

theorem request_absent_table_fails_witness:
  "partial_results (''annual_global_avg'' @ ''.csv'') = None
   \<and> no_results (''annual_global_avg'' @ ''.csv'') = None
   \<and> request_table partial_results ''annual_global_avg'' = Inl (KeyError ''annual_global_avg'')
   \<and> request_table no_results ''annual_global_avg'' = Inl FileNotFoundError"
proof -
  have h1: "partial_results (''annual_global_avg'' @ ''.csv'') = None
      \<or> ''annual_global_avg'' \<notin> set (map table_key required_files)"
    by (simp add: partial_results_def)
  have h2: "no_results (''annual_global_avg'' @ ''.csv'') = None
      \<or> ''annual_global_avg'' \<notin> set (map table_key required_files)"
    by (simp add: no_results_def)
  have c1: "\<not> (\<forall>f \<in> set required_files. partial_results f = None)"
    by (simp add: partial_results_def required_files_def)
  have c2: "\<forall>f \<in> set required_files. no_results f = None"
    by (simp add: no_results_def)
  from request_absent_table_fails[of partial_results "''annual_global_avg''", OF h1]
    request_absent_table_fails[of no_results "''annual_global_avg''", OF h2] c1 c2
  show ?thesis
    by (simp add: partial_results_def no_results_def)
qed

section \<open>What a run changes in place\<close>

lemma preprocess_data_decade:
  assumes "preprocess_data temp_df metadata = Inr (temp_df', data)" and "d \<in> set data"
  shows "decade d = None"
  using preprocess_data_rows[OF assms] by (auto simp: join_metadata_fields)

lemma preprocess_data_temp_df:
  assumes "preprocess_data temp_df metadata = Inr (temp_df', data)"
  shows "temp_df' = map add_columns temp_df"
  using assms by (auto simp: preprocess_data_def Let_def split: if_splits)

lemma truncate_add_columns: "temperature_record.truncate (add_columns t) = t"
  by (simp add: add_columns_def temperature_record.truncate_def temperature_record.extend_def)

lemma set_decade_reset: "decade d = None \<Longrightarrow> (set_decade d)\<lparr>decade := None\<rparr> = d"
  by (simp add: set_decade_def)

lemma analyze_temperature_trends_frame:
  "fst (analyze_temperature_trends observed data) = map set_decade data"
  by (simp add: analyze_temperature_trends_def Let_def)

text \<open>
  C7 (amended). The stages assign columns in place. After a run that succeeds, the
  caller's \<^verbatim>\<open>temp_df\<close> is the loaded frame with the three columns of
  \<^verbatim>\<open>preprocess_data\<close> added and its four columns unchanged; the metadata are as loaded;
  the enriched frame is the Enricher's output with the column \<open>decade\<close> added by
  \<^verbatim>\<open>analyze_temperature_trends\<close>, equal to it in every other column, row for row; and
  \<^verbatim>\<open>analyze_extreme_temperatures\<close>, which rebinds its local name to the merged frame
  before it assigns, reads that frame and leaves it as it is.
\<close>

theorem frames_after_run:
  assumes "run_analysis observed sample resp dir = Inr res"
  shows "\<exists>temp_df data.
           snd (load_data sample (download_data sample resp dir)) = (temp_df, metadata_after res)
         \<and> preprocess_data temp_df (metadata_after res) = Inr (temp_df_after res, data)
         \<and> temp_df_after res = map add_columns temp_df
         \<and> map temperature_record.truncate (temp_df_after res) = temp_df
         \<and> data_after res = map (\<lambda>d. d\<lparr>decade := Some ((year d div 10) * 10)\<rparr>) data
         \<and> map (\<lambda>d. d\<lparr>decade := None\<rparr>) (data_after res) = data
         \<and> extremes res = analyze_extreme_temperatures observed (data_after res)"
proof -
  obtain dir2 temp_df metadata where
    ld: "load_data sample (download_data sample resp dir) = (dir2, temp_df, metadata)"
    by (cases "load_data sample (download_data sample resp dir)") auto
  from assms ld obtain temp_df' data where
    pre: "preprocess_data temp_df metadata = Inr (temp_df', data)"
    by (cases "preprocess_data temp_df metadata") (auto simp: run_analysis_def Let_def)
  from assms ld pre have res:
    "res = \<lparr>dir_after = dir2, temp_df_after = temp_df', metadata_after = metadata,
            data_after = fst (analyze_temperature_trends observed data),
            trends = snd (analyze_temperature_trends observed data),
            extremes = analyze_extreme_temperatures observed
                         (fst (analyze_temperature_trends observed data))\<rparr>"
    by (simp add: run_analysis_def Let_def split_def)
  have t: "temp_df' = map add_columns temp_df"
    using pre by (rule preprocess_data_temp_df)
  have tr: "map temperature_record.truncate temp_df' = temp_df"
    unfolding t by (simp add: o_def truncate_add_columns)
  have da: "data_after res = map (\<lambda>d. d\<lparr>decade := Some ((year d div 10) * 10)\<rparr>) data"
    by (simp add: res analyze_temperature_trends_frame set_decade_def)
  have "map (\<lambda>d. d\<lparr>decade := None\<rparr>) (map set_decade data) = map (\<lambda>d. d) data"
    unfolding map_map
    by (rule map_cong) (simp_all add: set_decade_reset preprocess_data_decade[OF pre])
  then have undo: "map (\<lambda>d. d\<lparr>decade := None\<rparr>) (data_after res) = data"
    by (simp add: res analyze_temperature_trends_frame)
  have extr: "extremes res = analyze_extreme_temperatures observed (data_after res)"
    by (simp add: res)
  have "snd (load_data sample (download_data sample resp dir)) = (temp_df, metadata_after res)"
    by (simp add: ld res)
  moreover have "preprocess_data temp_df (metadata_after res) = Inr (temp_df_after res, data)"
    by (simp add: pre res)
  moreover have "temp_df_after res = map add_columns temp_df"
    by (simp add: res t)
  moreover have "map temperature_record.truncate (temp_df_after res) = temp_df"
    by (simp add: res tr)
  ultimately show ?thesis
    using da undo extr by blast
qed

text \<open>
  The claim of C7 as stated says the enriched record set is the same before and
  after the Trend Aggregator. On the three example records it is not: the frame has no
  decade before the call and the decade 2000 in every row after it.
\<close>

theorem trend_analysis_mutates_counterexample:
  "map decade two_year_data = [None, None, None]
   \<and> map decade (fst (analyze_temperature_trends False two_year_data))
       = [Some 2000, Some 2000, Some 2000]
   \<and> fst (analyze_temperature_trends False two_year_data) \<noteq> two_year_data"
proof -
  have a: "map decade two_year_data = [None, None, None]"
    by (simp add: two_year_data_def)
  have b: "map decade (fst (analyze_temperature_trends False two_year_data))
       = [Some 2000, Some 2000, Some 2000]"
    by (simp add: analyze_temperature_trends_frame set_decade_def two_year_data_def)
  have "fst (analyze_temperature_trends False two_year_data) \<noteq> two_year_data"
  proof
    assume "fst (analyze_temperature_trends False two_year_data) = two_year_data"
    then have "map decade (fst (analyze_temperature_trends False two_year_data)) = map decade two_year_data"
      by simp
    then show False
      unfolding a b by simp
  qed
  with a b show ?thesis by simp
qed

lemma equator_preprocessed:
  "preprocess_data equator_temp_df equator_metadata =
     Inr (map add_columns equator_temp_df,
          [join_metadata (add_columns (hd equator_temp_df)) (hd equator_metadata)])"
  by (simp add: preprocess_data_def equator_temp_df_def equator_metadata_def valid_date_def
      merge_metadata_def add_columns_fields)

text \<open>
  The run on the empty directory with the station on the equator as the sample.
\<close>

theorem frames_after_run_witness:
  "\<exists>res. run_analysis False (equator_temp_df, equator_metadata) Unreachable empty_dir = Inr res
     \<and> map decade (data_after res) = [Some 2000]
     \<and> map (\<lambda>d. d\<lparr>decade := None\<rparr>) (data_after res)
         = [join_metadata (add_columns (hd equator_temp_df)) (hd equator_metadata)]
     \<and> temp_df_after res = map add_columns equator_temp_df"
proof -
  let ?run = "run_analysis False (equator_temp_df, equator_metadata) Unreachable empty_dir"
  let ?row = "join_metadata (add_columns (hd equator_temp_df)) (hd equator_metadata)"
  have ld: "snd (load_data (equator_temp_df, equator_metadata)
              (download_data (equator_temp_df, equator_metadata) Unreachable empty_dir))
            = (equator_temp_df, equator_metadata)"
    by (simp add: load_data_def download_data_def create_sample_data_def empty_dir_def)
  have "\<exists>res. ?run = Inr res"
    unfolding run_analysis_def Let_def split_def ld snd_conv fst_conv equator_preprocessed
    by (simp only: sum.case prod.case) blast
  then obtain res where run: "?run = Inr res"
    by blast
  from frames_after_run[OF run] obtain temp_df data where
    l: "snd (load_data (equator_temp_df, equator_metadata)
              (download_data (equator_temp_df, equator_metadata) Unreachable empty_dir))
            = (temp_df, metadata_after res)"
    and p: "preprocess_data temp_df (metadata_after res) = Inr (temp_df_after res, data)"
    and d: "data_after res = map (\<lambda>d. d\<lparr>decade := Some ((year d div 10) * 10)\<rparr>) data"
    and u: "map (\<lambda>d. d\<lparr>decade := None\<rparr>) (data_after res) = data"
    by blast
  from l ld have "temp_df = equator_temp_df" "metadata_after res = equator_metadata"
    by simp_all
  with p equator_preprocessed have data: "data = [?row]"
    and t: "temp_df_after res = map add_columns equator_temp_df"
    by simp_all
  have "map decade (data_after res) = [Some 2000]"
    unfolding d data
    by (simp add: join_metadata_fields add_columns_fields equator_temp_df_def)
  with run u t show ?thesis
    unfolding data by (intro exI[of _ res] conjI)
qed

end
